theory Spec2Isabelle
  imports Main "HOL-Library.Word"
begin

section \<open>The host interface of \<open>sim_hosttime.c\<close>\<close>

text \<open>
  The file is compiled in one of two ways: with \<open>NUTTX_DARWIN\<close> defined (macOS, the
  \<open>setitimer\<close> strategy) or without it (POSIX interval timers).
\<close>

datatype platform = Darwin | Posix

datatype clockid = CLOCK_REALTIME | CLOCK_MONOTONIC

text \<open>
  \<open>struct timespec\<close> and \<open>struct timeval\<close>. The fields are signed host integers (\<open>time_t\<close>,
  \<open>long\<close>, \<open>suseconds_t\<close>) and are kept as their mathematical values. A record field name
  cannot be used twice, so the fields of \<open>struct timeval\<close> are \<open>tvv_sec\<close> and \<open>tvv_usec\<close>
  and those of \<open>struct itimerval\<close> are \<open>itv_interval\<close> and \<open>itv_value\<close>.
\<close>

record timespec =
  tv_sec :: int
  tv_nsec :: int

record timeval =
  tvv_sec :: int
  tvv_usec :: int

record itimerspec =
  it_interval :: timespec
  it_value :: timespec

record itimerval =
  itv_interval :: timeval
  itv_value :: timeval

datatype sigev_notify_t = SIGEV_SIGNAL | SIGEV_NONE | SIGEV_THREAD

record sigevent =
  sigev_notify :: sigev_notify_t
  sigev_signo :: int
  sival_ptr :: nat

datatype settime_flags = TIMER_ABSTIME | TIMER_RELATIVE

datatype itimer_which = ITIMER_REAL | ITIMER_VIRTUAL | ITIMER_PROF

text \<open>The value of \<open>SIGALRM\<close> in the host's \<open>signal.h\<close>, on Linux and on macOS.\<close>

definition SIGALRM :: int where
  "SIGALRM = 14"

text \<open>
  The calls the file makes into the host, with the arguments the host receives. The
  parameter of \<open>usleep\<close> is a \<open>useconds_t\<close>, an unsigned 32-bit integer on Linux and on
  macOS: the 64-bit argument expression at the call site is converted to it, which keeps
  its value modulo \<open>2^32\<close>.
\<close>

type_synonym useconds_t = "32 word"

datatype host_call =
    Clock_gettime clockid
  | Usleep useconds_t
  | Timer_create clockid sigevent
  | Timer_settime nat settime_flags itimerspec
  | Setitimer itimer_which itimerval

text \<open>
  What the host answers at the moment of one operation: for each clock what
  \<open>tp\<close> holds after \<open>clock_gettime\<close> and what that call returned, and the return
  values of the timer calls. \<open>timer_create\<close> stores the new handle only when it
  succeeds.
\<close>

record host =
  clock :: "clockid \<Rightarrow> timespec"
  clock_gettime_ret :: "clockid \<Rightarrow> int"
  timer_create_ret :: int
  timer_create_id :: nat
  timer_settime_ret :: int
  setitimer_ret :: int

text \<open>
  The file's own state: the two \<open>static\<close> variables (\<open>g_timer\<close> exists only without
  \<open>NUTTX_DARWIN\<close>; the Darwin branches never touch it), and the host calls issued so
  far, oldest first.
\<close>

record sim_state =
  g_start :: "64 word"
  g_timer :: nat
  trace :: "host_call list"

definition emit :: "host_call \<Rightarrow> sim_state \<Rightarrow> sim_state" where
  "emit c s = s\<lparr>trace := trace s @ [c]\<rparr>"

text \<open>The calls an operation added when it took \<open>s\<close> to \<open>s'\<close>.\<close>

definition issued :: "sim_state \<Rightarrow> sim_state \<Rightarrow> host_call list" where
  "issued s s' = drop (length (trace s)) (trace s')"

section \<open>The operations\<close>

text \<open>
  \<open>1000000000ull * tp.tv_sec + tp.tv_nsec\<close>: both fields are converted to
  \<open>unsigned long long\<close> (their value modulo \<open>2^64\<close>), product and sum wrap.
\<close>

definition timespec_ns :: "timespec \<Rightarrow> 64 word" where
  "timespec_ns tp = 1000000000 * word_of_int (tv_sec tp) + word_of_int (tv_nsec tp)"

text \<open>\<open>host_inittimer\<close>: the return value of \<open>clock_gettime\<close> is not looked at.\<close>

definition host_inittimer :: "platform \<Rightarrow> host \<Rightarrow> sim_state \<Rightarrow> int \<times> sim_state" where
  "host_inittimer p h s =
     (let tp = clock h CLOCK_MONOTONIC;
          s1 = (emit (Clock_gettime CLOCK_MONOTONIC) s)\<lparr>g_start := timespec_ns tp\<rparr>
      in case p of
           Darwin \<Rightarrow> (0, s1)
         | Posix \<Rightarrow>
             (let sigev = \<lparr>sigev_notify = SIGEV_SIGNAL, sigev_signo = SIGALRM, sival_ptr = 0\<rparr>;
                  s2 = emit (Timer_create CLOCK_MONOTONIC sigev) s1
              in (timer_create_ret h,
                  if timer_create_ret h = 0 then s2\<lparr>g_timer := timer_create_id h\<rparr> else s2)))"

definition host_gettime :: "host \<Rightarrow> sim_state \<Rightarrow> bool \<Rightarrow> 64 word \<times> sim_state" where
  "host_gettime h s rtc =
     (let c = (if rtc then CLOCK_REALTIME else CLOCK_MONOTONIC);
          tp = clock h c;
          current = timespec_ns tp
      in (if rtc then current else current - g_start s, emit (Clock_gettime c) s))"

definition host_sleep :: "sim_state \<Rightarrow> 64 word \<Rightarrow> sim_state" where
  "host_sleep s nsec = emit (Usleep (ucast ((nsec + 999) div 1000))) s"

definition host_sleepuntil :: "host \<Rightarrow> sim_state \<Rightarrow> 64 word \<Rightarrow> sim_state" where
  "host_sleepuntil h s nsec =
     (let (now, s1) = host_gettime h s False
      in if nsec > now + 1000 then emit (Usleep (ucast ((nsec - now) div 1000))) s1 else s1)"

text \<open>
  \<open>host_settimer\<close>: the quotients stored in \<open>tv_sec\<close> are below \<open>2^64 div 10^9\<close> and the
  remainders below \<open>10^9\<close> (\<open>10^6\<close> on Darwin), so on a host with a 64-bit \<open>time_t\<close> the
  stores into the signed fields keep the values.
\<close>

definition host_settimer :: "platform \<Rightarrow> host \<Rightarrow> sim_state \<Rightarrow> 64 word \<Rightarrow> int \<times> sim_state" where
  "host_settimer p h s nsec =
     (case p of
        Darwin \<Rightarrow>
          (let usec = nsec div 1000;
               it = \<lparr>itv_interval = \<lparr>tvv_sec = 0, tvv_usec = 0\<rparr>,
                     itv_value = \<lparr>tvv_sec = uint (usec div 1000000),
                                  tvv_usec = uint (usec mod 1000000)\<rparr>\<rparr>
           in (setitimer_ret h, emit (Setitimer ITIMER_REAL it) s))
      | Posix \<Rightarrow>
          (let abs = nsec + g_start s;
               tspec = \<lparr>it_interval = \<lparr>tv_sec = 0, tv_nsec = 0\<rparr>,
                        it_value = \<lparr>tv_sec = uint (abs div 1000000000),
                                    tv_nsec = uint (abs mod 1000000000)\<rparr>\<rparr>
           in (timer_settime_ret h, emit (Timer_settime (g_timer s) TIMER_ABSTIME tspec) s)))"

definition host_timerirq :: "sim_state \<Rightarrow> int \<times> sim_state" where
  "host_timerirq s = (SIGALRM, s)"

section \<open>When a programmed timer expires\<close>

text \<open>
  The meaning POSIX gives to the two arming calls, as a time on the host's monotonic
  timeline in nanoseconds: \<open>timer_settime\<close> with \<open>TIMER_ABSTIME\<close> on a
  \<open>CLOCK_MONOTONIC\<close> timer expires at \<open>it_value\<close> itself; \<open>setitimer\<close> (and a relative
  \<open>timer_settime\<close>) expires \<open>it_value\<close> after the moment of the call. A zero
  \<open>it_value\<close> disarms the timer, so nothing expires.
\<close>

definition mono_ns :: "host \<Rightarrow> int" where
  "mono_ns h = 1000000000 * tv_sec (clock h CLOCK_MONOTONIC) + tv_nsec (clock h CLOCK_MONOTONIC)"

definition host_expiry :: "host \<Rightarrow> host_call \<Rightarrow> int option" where
  "host_expiry h c =
     (let now = mono_ns h
      in case c of
           Timer_settime t f ts \<Rightarrow>
             (let v = 1000000000 * tv_sec (it_value ts) + tv_nsec (it_value ts)
              in if tv_sec (it_value ts) = 0 \<and> tv_nsec (it_value ts) = 0 then None
                 else case f of TIMER_ABSTIME \<Rightarrow> Some v | TIMER_RELATIVE \<Rightarrow> Some (now + v))
         | Setitimer w it \<Rightarrow>
             (let v = 1000 * (1000000 * tvv_sec (itv_value it) + tvv_usec (itv_value it))
              in if tvv_sec (itv_value it) = 0 \<and> tvv_usec (itv_value it) = 0 then None
                 else Some (now + v))
         | _ \<Rightarrow> None)"

text \<open>The same point on the virtual timeline, which counts from the stored epoch.\<close>

definition virtual_expiry :: "host \<Rightarrow> sim_state \<Rightarrow> host_call \<Rightarrow> int option" where
  "virtual_expiry h s c = map_option (\<lambda>t. t - uint (g_start s)) (host_expiry h c)"

section \<open>Example hosts and states\<close>

text \<open>
  A host whose monotonic clock reads \<open>tm\<close> and whose realtime clock reads \<open>tr\<close>, every
  call succeeding; and a state with a given epoch and an empty trace.
\<close>

definition host_at :: "timespec \<Rightarrow> timespec \<Rightarrow> host" where
  "host_at tm tr =
     \<lparr>clock = (\<lambda>c. case c of CLOCK_REALTIME \<Rightarrow> tr | CLOCK_MONOTONIC \<Rightarrow> tm),
      clock_gettime_ret = (\<lambda>c. 0), timer_create_ret = 0, timer_create_id = 1,
      timer_settime_ret = 0, setitimer_ret = 0\<rparr>"

definition state_at :: "64 word \<Rightarrow> sim_state" where
  "state_at g = \<lparr>g_start = g, g_timer = 1, trace = []\<rparr>"

section \<open>Auxiliary facts\<close>

lemma issued_emit1: "issued s (emit c s) = [c]"
  by (simp add: issued_def emit_def)

lemma issued_emit2: "issued s (emit c2 (emit c1 s)) = [c1, c2]"
  by (simp add: issued_def emit_def)

lemma issued_self: "issued s s = []"
  by (simp add: issued_def)

lemma unat_add_999:
  fixes d :: "64 word"
  assumes "unat d + 999 < 2 ^ 64"
  shows "unat ((d + 999) div 1000) = (unat d + 999) div 1000"
proof -
  have "unat (d + 999) = unat d + 999"
    using assms by (simp add: unat_add_lem [THEN iffD1])
  then show ?thesis by (simp add: unat_div)
qed

lemma guard_nowrap:
  fixes d now :: "64 word"
  assumes "unat now + 1000 < 2 ^ 64"
  shows "(now + 1000 < d) = (unat now + 1000 < unat d)"
proof -
  have "unat (now + 1000) = unat now + 1000"
    using assms by (simp add: unat_add_lem [THEN iffD1])
  then show ?thesis by (simp add: word_less_nat_alt)
qed


lemma uint_split: "1000000000 * uint ((a :: 64 word) div 1000000000) + uint (a mod 1000000000) = uint a"
  by (simp add: uint_div uint_mod)

lemma ceil_div_1000:
  fixes n :: nat
  shows "n \<le> 1000 * ((n + 999) div 1000)" and "1000 * ((n + 999) div 1000) < n + 1000"
proof -
  have eq: "1000 * ((n + 999) div 1000) + (n + 999) mod 1000 = n + 999"
    by (rule mult_div_mod_eq)
  have lt: "(n + 999) mod 1000 < 1000"
    by simp
  show "n \<le> 1000 * ((n + 999) div 1000)" using eq lt by linarith
  show "1000 * ((n + 999) div 1000) < n + 1000" using eq by linarith
qed

lemma host_gettime_mono_fst:
  "fst (host_gettime h s False) = timespec_ns (clock h CLOCK_MONOTONIC) - g_start s"
  by (simp add: host_gettime_def Let_def)

lemma host_gettime_snd:
  "snd (host_gettime h s rtc) = emit (Clock_gettime (if rtc then CLOCK_REALTIME else CLOCK_MONOTONIC)) s"
  by (simp add: host_gettime_def Let_def)

lemma host_sleepuntil_unfold:
  "host_sleepuntil h s d =
     (if fst (host_gettime h s False) + 1000 < d
      then emit (Usleep (ucast ((d - fst (host_gettime h s False)) div 1000)))
             (emit (Clock_gettime CLOCK_MONOTONIC) s)
      else emit (Clock_gettime CLOCK_MONOTONIC) s)"
  by (simp add: host_sleepuntil_def host_gettime_def Let_def)

lemma timespec_ns_exact:
  assumes "0 \<le> tv_sec tp" and "0 \<le> tv_nsec tp"
      and "1000000000 * tv_sec tp + tv_nsec tp < 2 ^ 64"
  shows "uint (timespec_ns tp) = 1000000000 * tv_sec tp + tv_nsec tp"
proof -
  define x where "x = 1000000000 * tv_sec tp + tv_nsec tp"
  have w: "timespec_ns tp = word_of_int x"
    by (simp add: timespec_ns_def x_def)
  have "0 \<le> x"
    using assms(1,2) by (simp add: x_def)
  moreover have "x < 2 ^ 64"
    using assms(3) by (simp add: x_def)
  ultimately have "uint (word_of_int x :: 64 word) = x"
    by (simp add: uint_word_of_int take_bit_int_eq_self)
  then show ?thesis
    by (simp add: w x_def)
qed

lemma unat_narrow:
  fixes x :: "64 word"
  assumes "unat x < 2 ^ 32"
  shows "unat (ucast x :: 32 word) = unat x"
  using assms by (simp add: unsigned_ucast_eq take_bit_nat_eq_self)

lemma unat_sub_div_1000:
  fixes d now :: "64 word"
  assumes "now \<le> d"
  shows "unat ((d - now) div 1000) = (unat d - unat now) div 1000"
  using assms by (simp add: unat_div unat_sub)

lemma floor_div_1000:
  fixes n :: nat
  shows "1000 * (n div 1000) \<le> n" and "n < 1000 * (n div 1000) + 1000"
proof -
  have eq: "1000 * (n div 1000) + n mod 1000 = n"
    by (rule mult_div_mod_eq)
  have lt: "n mod 1000 < 1000"
    by simp
  show "1000 * (n div 1000) \<le> n" using eq by linarith
  show "n < 1000 * (n div 1000) + 1000" using eq lt by linarith
qed


text \<open>
  The guard of \<open>host_sleepuntil\<close> adds 1000 to the elapsed time in 64 bits. The sum wraps
  only at an elapsed time within 1000 ns of \<open>2^64\<close>, some 584 years after the epoch, which
  no host clock delivers; there a deadline before now passes the guard. The theorems on
  \<open>host_sleepuntil\<close> therefore ask for \<open>now + 1000 < 2^64\<close>.
\<close>

lemma host_sleepuntil_guard_wraps:
  "fst (host_gettime (host_at \<lparr>tv_sec = 18446744073, tv_nsec = 709551615\<rparr>
                              \<lparr>tv_sec = 0, tv_nsec = 0\<rparr>) (state_at 0) False)
     = 18446744073709551615
   \<and> issued (state_at 0)
        (host_sleepuntil (host_at \<lparr>tv_sec = 18446744073, tv_nsec = 709551615\<rparr>
                                  \<lparr>tv_sec = 0, tv_nsec = 0\<rparr>) (state_at 0) 2000)
     = [Clock_gettime CLOCK_MONOTONIC, Usleep 2]"
  by (simp add: host_sleepuntil_unfold host_gettime_mono_fst timespec_ns_def host_at_def
      state_at_def issued_emit2)

lemma posix_virtual_expiry:
  assumes nowrap: "unat d + unat (g_start s) < 2 ^ 64"
      and nz: "d + g_start s \<noteq> 0"
  shows "map (virtual_expiry h s) (issued s (snd (host_settimer Posix h s d))) = [Some (uint d)]"
proof -
  let ?abs = "d + g_start s"
  have sum: "1000000000 * uint (?abs div 1000000000) + uint (?abs mod 1000000000) = uint ?abs"
    by (rule uint_split)
  have "uint (?abs div 1000000000) \<noteq> 0 \<or> uint (?abs mod 1000000000) \<noteq> 0"
  proof (rule ccontr)
    assume "\<not> ?thesis"
    with sum have "uint ?abs = 0" by simp
    with nz show False by (simp add: uint_0_iff)
  qed
  moreover have "uint ?abs = uint d + uint (g_start s)"
  proof -
    have "unat ?abs = unat d + unat (g_start s)"
      using nowrap by (simp add: unat_add_lem [THEN iffD1])
    then have "int (unat ?abs) = int (unat d) + int (unat (g_start s))"
      by simp
    then show ?thesis by (simp only: uint_nat [symmetric])
  qed
  ultimately show ?thesis
    using sum
    by (auto simp add: host_settimer_def Let_def issued_emit1 virtual_expiry_def host_expiry_def)
qed

lemma darwin_virtual_expiry:
  assumes "1000 \<le> d"
  shows "map (virtual_expiry h s) (issued s (snd (host_settimer Darwin h s d)))
           = [Some (mono_ns h - uint (g_start s) + 1000 * (uint d div 1000))]"
proof -
  let ?usec = "d div 1000"
  have sum: "1000000 * uint (?usec div 1000000) + uint (?usec mod 1000000) = uint ?usec"
    by (simp add: uint_div uint_mod)
  have us: "uint ?usec = uint d div 1000"
    by (simp add: uint_div)
  have "1000 \<le> uint d" using assms by (simp add: word_le_def)
  then have "1 \<le> uint d div 1000" by simp
  with us sum have "uint (?usec div 1000000) \<noteq> 0 \<or> uint (?usec mod 1000000) \<noteq> 0"
    by linarith
  then show ?thesis
    using sum us
    by (auto simp add: host_settimer_def Let_def issued_emit1 virtual_expiry_def host_expiry_def
        mono_ns_def)
qed

section \<open>C1: the two arming strategies\<close>

text \<open>
  C1 says that both builds of \<open>host_settimer\<close> make the timer expire at the requested
  virtual deadline. The POSIX branch does (\<open>posix_virtual_expiry\<close>). The Darwin branch
  hands \<open>nsec / 1000\<close> to \<open>setitimer\<close> as a relative interval without subtracting the
  current elapsed time (\<open>darwin_virtual_expiry\<close>): with the epoch at 10 s, the monotonic
  clock at 10.003 s and the deadline 5000000 ns, the Darwin timer expires at virtual time
  8000000 ns and the POSIX timer at 5000000 ns.
\<close>

theorem host_settimer_darwin_misses_deadline:
  "fst (host_gettime (host_at \<lparr>tv_sec = 10, tv_nsec = 3000000\<rparr> \<lparr>tv_sec = 0, tv_nsec = 0\<rparr>)
          (state_at 10000000000) False) = 3000000
   \<and> map (virtual_expiry (host_at \<lparr>tv_sec = 10, tv_nsec = 3000000\<rparr> \<lparr>tv_sec = 0, tv_nsec = 0\<rparr>)
             (state_at 10000000000))
        (issued (state_at 10000000000)
           (snd (host_settimer Darwin
                   (host_at \<lparr>tv_sec = 10, tv_nsec = 3000000\<rparr> \<lparr>tv_sec = 0, tv_nsec = 0\<rparr>)
                   (state_at 10000000000) 5000000)))
      = [Some 8000000]
   \<and> map (virtual_expiry (host_at \<lparr>tv_sec = 10, tv_nsec = 3000000\<rparr> \<lparr>tv_sec = 0, tv_nsec = 0\<rparr>)
             (state_at 10000000000))
        (issued (state_at 10000000000)
           (snd (host_settimer Posix
                   (host_at \<lparr>tv_sec = 10, tv_nsec = 3000000\<rparr> \<lparr>tv_sec = 0, tv_nsec = 0\<rparr>)
                   (state_at 10000000000) 5000000)))
      = [Some 5000000]"
  by (simp add: host_gettime_mono_fst timespec_ns_def host_settimer_def Let_def issued_emit1
      virtual_expiry_def host_expiry_def mono_ns_def host_at_def state_at_def)

section \<open>C2: sleep-for rounds up\<close>

text \<open>
  C2, as stated for every duration, fails where the microsecond count does not fit the
  32-bit \<open>useconds_t\<close> of \<open>usleep\<close>: for the duration 4294967296000 ns (about 71.6 minutes)
  the count is \<open>2^32\<close> and the host is asked for 0 microseconds, less than the requested
  duration.
\<close>

theorem host_sleep_narrows:
  "issued (state_at 0) (host_sleep (state_at 0) 4294967296000) = [Usleep 0]
   \<and> 1000 * unat (0 :: useconds_t) < unat (4294967296000 :: 64 word)"
  by (simp add: host_sleep_def issued_emit1)

text \<open>
  C2, amended: for every duration \<open>d\<close> of at most 4294967295000 ns, \<open>host_sleep\<close> issues
  exactly one \<open>usleep\<close>, and the host receives \<open>(d + 999) div 1000\<close>, the ceiling of
  \<open>d / 1000\<close>: in nanoseconds it is at least \<open>d\<close> and less than \<open>d + 1000\<close>. Up to that
  bound neither \<open>d + 999\<close> wraps in 64 bits nor does the count exceed 32 bits.
\<close>

theorem host_sleep_rounds_up:
  assumes "unat d \<le> 4294967295000"
  shows "\<exists>u. issued s (host_sleep s d) = [Usleep u]
           \<and> unat u = (unat d + 999) div 1000
           \<and> unat d \<le> 1000 * unat u \<and> 1000 * unat u < unat d + 1000"
proof -
  let ?x = "(d + 999) div 1000"
  from assms have "unat d + 999 < 2 ^ 64" by simp
  then have x: "unat ?x = (unat d + 999) div 1000"
    by (rule unat_add_999)
  from assms have "(unat d + 999) div 1000 < 2 ^ 32" by simp
  with x have u: "unat (ucast ?x :: useconds_t) = (unat d + 999) div 1000"
    by (simp add: unat_narrow)
  have "issued s (host_sleep s d) = [Usleep (ucast ?x)]"
    by (simp add: host_sleep_def issued_emit1)
  moreover have "unat d \<le> 1000 * unat (ucast ?x :: useconds_t)"
    and "1000 * unat (ucast ?x :: useconds_t) < unat d + 1000"
    unfolding u by (rule ceil_div_1000)+
  ultimately show ?thesis using u by blast
qed

theorem host_sleep_rounds_up_witness:
  "unat (1001 :: 64 word) \<le> 4294967295000
   \<and> (\<exists>u. issued (state_at 0) (host_sleep (state_at 0) 1001) = [Usleep u] \<and> unat u = 2
           \<and> unat (1001 :: 64 word) \<le> 1000 * unat u)"
proof -
  have h: "unat (1001 :: 64 word) \<le> 4294967295000" by simp
  from host_sleep_rounds_up [OF h, of "state_at 0"] obtain u where
    "issued (state_at 0) (host_sleep (state_at 0) 1001) = [Usleep u]"
    "unat u = (unat (1001 :: 64 word) + 999) div 1000"
    "unat (1001 :: 64 word) \<le> 1000 * unat u" by blast
  moreover from this have "unat u = 2" by simp
  ultimately show ?thesis using h by blast
qed

section \<open>C3: what initialize returns\<close>

text \<open>
  C3 says that a failure of the clock read is surfaced. \<open>host_inittimer\<close> does not look at
  what \<open>clock_gettime\<close> returned: on a host where that call returns \<open>-1\<close> and
  \<open>timer_create\<close> returns 0, both builds return 0.
\<close>

theorem host_inittimer_swallows_clock_failure:
  "clock_gettime_ret ((host_at \<lparr>tv_sec = 0, tv_nsec = 0\<rparr> \<lparr>tv_sec = 0, tv_nsec = 0\<rparr>)
        \<lparr>clock_gettime_ret := (\<lambda>c. - 1)\<rparr>) CLOCK_MONOTONIC = - 1
   \<and> fst (host_inittimer Posix ((host_at \<lparr>tv_sec = 0, tv_nsec = 0\<rparr> \<lparr>tv_sec = 0, tv_nsec = 0\<rparr>)
        \<lparr>clock_gettime_ret := (\<lambda>c. - 1)\<rparr>) (state_at 0)) = 0
   \<and> fst (host_inittimer Darwin ((host_at \<lparr>tv_sec = 0, tv_nsec = 0\<rparr> \<lparr>tv_sec = 0, tv_nsec = 0\<rparr>)
        \<lparr>clock_gettime_ret := (\<lambda>c. - 1)\<rparr>) (state_at 0)) = 0"
  by (simp add: host_inittimer_def host_at_def Let_def)

text \<open>
  C3, amended: \<open>host_inittimer\<close> returns 0 on the Darwin build and the return value of
  \<open>timer_create\<close> on the POSIX build, whatever \<open>clock_gettime\<close> returned; it reads the clock
  once and (on POSIX) creates the timer once, with no retry.
\<close>

theorem host_inittimer_result:
  "fst (host_inittimer p (h\<lparr>clock_gettime_ret := r\<rparr>) s)
     = (case p of Darwin \<Rightarrow> 0 | Posix \<Rightarrow> timer_create_ret h)
   \<and> issued s (snd (host_inittimer p (h\<lparr>clock_gettime_ret := r\<rparr>) s))
     = (case p of
          Darwin \<Rightarrow> [Clock_gettime CLOCK_MONOTONIC]
        | Posix \<Rightarrow> [Clock_gettime CLOCK_MONOTONIC,
                     Timer_create CLOCK_MONOTONIC
                       \<lparr>sigev_notify = SIGEV_SIGNAL, sigev_signo = SIGALRM, sival_ptr = 0\<rparr>])"
  by (cases p) (simp_all add: host_inittimer_def Let_def issued_def emit_def)

section \<open>C4: read-time\<close>

text \<open>
  C4: with \<open>rtc\<close> set, \<open>host_gettime\<close> returns the realtime sample as
  \<open>10^9 * tv_sec + tv_nsec\<close> (a 64-bit value; it is that integer whenever the integer is
  below \<open>2^64\<close>); without \<open>rtc\<close> it returns the monotonic sample minus \<open>g_start\<close>, and
  when the sample is at or after the epoch this is the difference of the two as integers,
  which is not negative.
\<close>

theorem host_gettime_value:
  "fst (host_gettime h s True)
     = 1000000000 * word_of_int (tv_sec (clock h CLOCK_REALTIME))
       + word_of_int (tv_nsec (clock h CLOCK_REALTIME))
   \<and> (0 \<le> tv_sec (clock h CLOCK_REALTIME) \<and> 0 \<le> tv_nsec (clock h CLOCK_REALTIME)
        \<and> 1000000000 * tv_sec (clock h CLOCK_REALTIME) + tv_nsec (clock h CLOCK_REALTIME) < 2 ^ 64
      \<longrightarrow> uint (fst (host_gettime h s True))
            = 1000000000 * tv_sec (clock h CLOCK_REALTIME) + tv_nsec (clock h CLOCK_REALTIME))
   \<and> fst (host_gettime h s False) = timespec_ns (clock h CLOCK_MONOTONIC) - g_start s
   \<and> (g_start s \<le> timespec_ns (clock h CLOCK_MONOTONIC) \<longrightarrow>
        uint (fst (host_gettime h s False))
          = uint (timespec_ns (clock h CLOCK_MONOTONIC)) - uint (g_start s)
        \<and> 0 \<le> uint (timespec_ns (clock h CLOCK_MONOTONIC)) - uint (g_start s))"
proof -
  have rt: "fst (host_gettime h s True) = timespec_ns (clock h CLOCK_REALTIME)"
    by (simp add: host_gettime_def Let_def)
  have raw: "fst (host_gettime h s True)
     = 1000000000 * word_of_int (tv_sec (clock h CLOCK_REALTIME))
       + word_of_int (tv_nsec (clock h CLOCK_REALTIME))"
    unfolding rt by (simp add: timespec_ns_def)
  have exact: "uint (fst (host_gettime h s True))
            = 1000000000 * tv_sec (clock h CLOCK_REALTIME) + tv_nsec (clock h CLOCK_REALTIME)"
    if "0 \<le> tv_sec (clock h CLOCK_REALTIME)" "0 \<le> tv_nsec (clock h CLOCK_REALTIME)"
       "1000000000 * tv_sec (clock h CLOCK_REALTIME) + tv_nsec (clock h CLOCK_REALTIME) < 2 ^ 64"
    unfolding rt using that by (rule timespec_ns_exact)
  have elapsed: "fst (host_gettime h s False) = timespec_ns (clock h CLOCK_MONOTONIC) - g_start s"
    by (rule host_gettime_mono_fst)
  have nonneg: "uint (fst (host_gettime h s False))
          = uint (timespec_ns (clock h CLOCK_MONOTONIC)) - uint (g_start s)
        \<and> 0 \<le> uint (timespec_ns (clock h CLOCK_MONOTONIC)) - uint (g_start s)"
    if "g_start s \<le> timespec_ns (clock h CLOCK_MONOTONIC)"
    unfolding elapsed using that by (simp add: uint_sub_if' word_le_def)
  from raw exact elapsed nonneg show ?thesis by blast
qed

theorem host_gettime_value_witness:
  "0 \<le> tv_sec (clock (host_at \<lparr>tv_sec = 12, tv_nsec = 250\<rparr>
                                \<lparr>tv_sec = 1700000000, tv_nsec = 5\<rparr>) CLOCK_REALTIME)
   \<and> 0 \<le> tv_nsec (clock (host_at \<lparr>tv_sec = 12, tv_nsec = 250\<rparr>
                                   \<lparr>tv_sec = 1700000000, tv_nsec = 5\<rparr>) CLOCK_REALTIME)
   \<and> 1000000000 * tv_sec (clock (host_at \<lparr>tv_sec = 12, tv_nsec = 250\<rparr>
                                   \<lparr>tv_sec = 1700000000, tv_nsec = 5\<rparr>) CLOCK_REALTIME)
       + tv_nsec (clock (host_at \<lparr>tv_sec = 12, tv_nsec = 250\<rparr>
                                   \<lparr>tv_sec = 1700000000, tv_nsec = 5\<rparr>) CLOCK_REALTIME) < 2 ^ 64
   \<and> g_start (state_at 10000000000)
     \<le> timespec_ns (clock (host_at \<lparr>tv_sec = 12, tv_nsec = 250\<rparr>
                                    \<lparr>tv_sec = 1700000000, tv_nsec = 5\<rparr>) CLOCK_MONOTONIC)
   \<and> uint (fst (host_gettime (host_at \<lparr>tv_sec = 12, tv_nsec = 250\<rparr>
                                 \<lparr>tv_sec = 1700000000, tv_nsec = 5\<rparr>)
            (state_at 10000000000) False)) = 2000000250
   \<and> uint (fst (host_gettime (host_at \<lparr>tv_sec = 12, tv_nsec = 250\<rparr>
                                 \<lparr>tv_sec = 1700000000, tv_nsec = 5\<rparr>)
            (state_at 10000000000) True)) = 1700000000000000005"
  using host_gettime_value [of "host_at \<lparr>tv_sec = 12, tv_nsec = 250\<rparr>
                                 \<lparr>tv_sec = 1700000000, tv_nsec = 5\<rparr>" "state_at 10000000000"]
  by (simp add: host_at_def state_at_def timespec_ns_def)

section \<open>C5: sleep-until\<close>

text \<open>
  C5 says that a deadline more than 1000 ns ahead leads to one host sleep for the
  difference \<open>d - now\<close>. With the elapsed time at 2000000250 ns, the deadline 1999 ns
  ahead leads to \<open>usleep(1)\<close>, 1000 ns and so 999 ns short of the difference; and the
  deadline 4294967296000 ns ahead leads to \<open>usleep(0)\<close>, since the count \<open>2^32\<close> does not
  fit \<open>useconds_t\<close>.
\<close>

theorem host_sleepuntil_sleeps_short:
  "fst (host_gettime (host_at \<lparr>tv_sec = 12, tv_nsec = 250\<rparr> \<lparr>tv_sec = 0, tv_nsec = 0\<rparr>)
          (state_at 10000000000) False) = 2000000250
   \<and> issued (state_at 10000000000)
        (host_sleepuntil (host_at \<lparr>tv_sec = 12, tv_nsec = 250\<rparr> \<lparr>tv_sec = 0, tv_nsec = 0\<rparr>)
           (state_at 10000000000) 2000002249)
     = [Clock_gettime CLOCK_MONOTONIC, Usleep 1]
   \<and> 1000 * unat (1 :: useconds_t) < unat (2000002249 - 2000000250 :: 64 word)
   \<and> issued (state_at 10000000000)
        (host_sleepuntil (host_at \<lparr>tv_sec = 12, tv_nsec = 250\<rparr> \<lparr>tv_sec = 0, tv_nsec = 0\<rparr>)
           (state_at 10000000000) 4296967296250)
     = [Clock_gettime CLOCK_MONOTONIC, Usleep 0]"
  by (simp add: host_sleepuntil_unfold host_gettime_mono_fst timespec_ns_def host_at_def
      state_at_def issued_emit2)

text \<open>
  C5, amended: when \<open>now + 1000\<close> does not wrap, \<open>host_sleepuntil\<close> reads the monotonic
  clock once and then, if the deadline exceeds \<open>now + 1000\<close>, issues exactly one
  \<open>usleep\<close>. Its argument is the difference \<open>d - now\<close> (which does not wrap) divided by
  1000 and rounded down, so at most 999 ns short of the difference, and the host receives
  that count whenever it is below \<open>2^32\<close>. Otherwise, and so for every deadline at or
  before now, it issues no sleep.
\<close>

theorem host_sleepuntil_guard:
  assumes now: "now = fst (host_gettime h s False)"
      and nowrap: "unat now + 1000 < 2 ^ 64"
  shows "issued s (host_sleepuntil h s d)
           = (if unat now + 1000 < unat d
              then [Clock_gettime CLOCK_MONOTONIC, Usleep (ucast ((d - now) div 1000))]
              else [Clock_gettime CLOCK_MONOTONIC])
         \<and> (unat now + 1000 < unat d \<longrightarrow>
              unat (d - now) = unat d - unat now
              \<and> unat ((d - now) div 1000) = (unat d - unat now) div 1000
              \<and> 1000 * ((unat d - unat now) div 1000) \<le> unat d - unat now
              \<and> unat d - unat now < 1000 * ((unat d - unat now) div 1000) + 1000)
         \<and> (unat now + 1000 < unat d \<and> (unat d - unat now) div 1000 < 2 ^ 32 \<longrightarrow>
              unat (ucast ((d - now) div 1000) :: useconds_t) = (unat d - unat now) div 1000)
         \<and> (d \<le> now \<longrightarrow> issued s (host_sleepuntil h s d) = [Clock_gettime CLOCK_MONOTONIC])"
proof -
  have g: "(now + 1000 < d) = (unat now + 1000 < unat d)"
    using nowrap by (rule guard_nowrap)
  have tr: "issued s (host_sleepuntil h s d)
           = (if unat now + 1000 < unat d
              then [Clock_gettime CLOCK_MONOTONIC, Usleep (ucast ((d - now) div 1000))]
              else [Clock_gettime CLOCK_MONOTONIC])"
    unfolding host_sleepuntil_unfold now [symmetric] g
    by (simp add: issued_emit1 issued_emit2)
  have le: "now \<le> d" if "unat now + 1000 < unat d"
    using that by (simp add: word_le_nat_alt)
  have sub: "unat (d - now) = unat d - unat now" if "unat now + 1000 < unat d"
    using le [OF that] by (simp add: unat_sub)
  have q: "unat ((d - now) div 1000) = (unat d - unat now) div 1000"
    if "unat now + 1000 < unat d"
    using le [OF that] by (rule unat_sub_div_1000)
  have fits: "unat (ucast ((d - now) div 1000) :: useconds_t) = (unat d - unat now) div 1000"
    if "unat now + 1000 < unat d" "(unat d - unat now) div 1000 < 2 ^ 32"
  proof -
    from that have "unat ((d - now) div 1000) < 2 ^ 32" by (simp only: q)
    then have "unat (ucast ((d - now) div 1000) :: useconds_t) = unat ((d - now) div 1000)"
      by (rule unat_narrow)
    with that(1) show ?thesis by (simp only: q)
  qed
  have past: "\<not> unat now + 1000 < unat d" if "d \<le> now"
    using that by (simp add: word_le_nat_alt)
  from tr past have no_sleep:
    "d \<le> now \<longrightarrow> issued s (host_sleepuntil h s d) = [Clock_gettime CLOCK_MONOTONIC]"
    by simp
  from tr sub q fits no_sleep floor_div_1000 [of "unat d - unat now"] show ?thesis
    by blast
qed

theorem host_sleepuntil_guard_witness:
  "unat (fst (host_gettime (host_at \<lparr>tv_sec = 12, tv_nsec = 250\<rparr> \<lparr>tv_sec = 0, tv_nsec = 0\<rparr>)
                 (state_at 10000000000) False)) + 1000 < 2 ^ 64
   \<and> unat (2000000250 :: 64 word) + 1000 < unat (2050000250 :: 64 word)
   \<and> (unat (2050000250 :: 64 word) - unat (2000000250 :: 64 word)) div 1000 < 2 ^ 32
   \<and> (2000000250 :: 64 word) \<le> 2000000250
   \<and> issued (state_at 10000000000)
        (host_sleepuntil (host_at \<lparr>tv_sec = 12, tv_nsec = 250\<rparr> \<lparr>tv_sec = 0, tv_nsec = 0\<rparr>)
           (state_at 10000000000) 2050000250)
     = [Clock_gettime CLOCK_MONOTONIC, Usleep 50000]
   \<and> issued (state_at 10000000000)
        (host_sleepuntil (host_at \<lparr>tv_sec = 12, tv_nsec = 250\<rparr> \<lparr>tv_sec = 0, tv_nsec = 0\<rparr>)
           (state_at 10000000000) 2000000250)
     = [Clock_gettime CLOCK_MONOTONIC]"
proof -
  let ?h = "host_at \<lparr>tv_sec = 12, tv_nsec = 250\<rparr> \<lparr>tv_sec = 0, tv_nsec = 0\<rparr>"
  let ?s = "state_at 10000000000"
  have now: "fst (host_gettime ?h ?s False) = 2000000250"
    by (simp add: host_gettime_mono_fst timespec_ns_def host_at_def state_at_def)
  have h: "unat (2000000250 :: 64 word) + 1000 < 2 ^ 64" by simp
  show ?thesis
    using host_sleepuntil_guard [OF now [symmetric] h, of 2050000250]
          host_sleepuntil_guard [OF now [symmetric] h, of 2000000250]
    by (simp add: now)
qed

section \<open>C6: arming on the absolute-interval build\<close>




section \<open>C7: monotonic reads do not decrease\<close>

text \<open>
  C7: for two monotonic reads against the same epoch, where the second sample (as the
  64-bit nanosecond value \<open>host_gettime\<close> computes) is at least the first and the first is
  at or after the epoch, the second result is at least the first.
\<close>

theorem host_gettime_monotone:
  assumes order: "timespec_ns (clock h1 CLOCK_MONOTONIC) \<le> timespec_ns (clock h2 CLOCK_MONOTONIC)"
      and after: "g_start s1 \<le> timespec_ns (clock h1 CLOCK_MONOTONIC)"
      and same: "g_start s2 = g_start s1"
  shows "fst (host_gettime h1 s1 False) \<le> fst (host_gettime h2 s2 False)"
proof -
  have "timespec_ns (clock h1 CLOCK_MONOTONIC) - g_start s1
          \<le> timespec_ns (clock h2 CLOCK_MONOTONIC) - g_start s1"
    using order after by unat_arith
  then show ?thesis by (simp add: host_gettime_mono_fst same)
qed

theorem host_gettime_monotone_witness:
  "timespec_ns (clock (host_at \<lparr>tv_sec = 12, tv_nsec = 250\<rparr> \<lparr>tv_sec = 0, tv_nsec = 0\<rparr>) CLOCK_MONOTONIC)
     \<le> timespec_ns (clock (host_at \<lparr>tv_sec = 12, tv_nsec = 900\<rparr> \<lparr>tv_sec = 0, tv_nsec = 0\<rparr>) CLOCK_MONOTONIC)
   \<and> g_start (state_at 10000000000)
      \<le> timespec_ns (clock (host_at \<lparr>tv_sec = 12, tv_nsec = 250\<rparr> \<lparr>tv_sec = 0, tv_nsec = 0\<rparr>) CLOCK_MONOTONIC)
   \<and> fst (host_gettime (host_at \<lparr>tv_sec = 12, tv_nsec = 250\<rparr> \<lparr>tv_sec = 0, tv_nsec = 0\<rparr>)
             (state_at 10000000000) False)
      \<le> fst (host_gettime (host_at \<lparr>tv_sec = 12, tv_nsec = 900\<rparr> \<lparr>tv_sec = 0, tv_nsec = 0\<rparr>)
             (snd (host_gettime (host_at \<lparr>tv_sec = 12, tv_nsec = 250\<rparr> \<lparr>tv_sec = 0, tv_nsec = 0\<rparr>)
                (state_at 10000000000) False)) False)"
proof -
  let ?h1 = "host_at \<lparr>tv_sec = 12, tv_nsec = 250\<rparr> \<lparr>tv_sec = 0, tv_nsec = 0\<rparr>"
  let ?h2 = "host_at \<lparr>tv_sec = 12, tv_nsec = 900\<rparr> \<lparr>tv_sec = 0, tv_nsec = 0\<rparr>"
  let ?s1 = "state_at 10000000000"
  have a: "timespec_ns (clock ?h1 CLOCK_MONOTONIC) \<le> timespec_ns (clock ?h2 CLOCK_MONOTONIC)"
    by (simp add: timespec_ns_def host_at_def)
  have b: "g_start ?s1 \<le> timespec_ns (clock ?h1 CLOCK_MONOTONIC)"
    by (simp add: timespec_ns_def host_at_def state_at_def)
  have c: "g_start (snd (host_gettime ?h1 ?s1 False)) = g_start ?s1"
    by (simp add: host_gettime_snd emit_def)
  from host_gettime_monotone [OF a b c] a b show ?thesis by blast
qed

section \<open>C8: the interrupt number\<close>

text \<open>
  C8: \<open>host_timerirq\<close> returns \<open>SIGALRM\<close> from every state, leaves the state as it is and
  issues no host call.
\<close>

theorem host_timerirq_constant:
  "host_timerirq s = (SIGALRM, s)
   \<and> fst (host_timerirq s) = fst (host_timerirq s')
   \<and> issued s (snd (host_timerirq s)) = []"
  by (simp add: host_timerirq_def issued_self)

section \<open>C9: the subtraction in sleep-until\<close>

text \<open>
  C9 says that the microsecond argument of every issued sleep is at least 1. With the
  elapsed time at 2000000100 ns and the deadline 8589934592000 ns ahead, the quotient
  \<open>(d - now) div 1000\<close> is \<open>2^33\<close>, and the host receives \<open>usleep(0)\<close>.
\<close>

theorem host_sleepuntil_zero_sleep:
  "fst (host_gettime (host_at \<lparr>tv_sec = 7, tv_nsec = 100\<rparr> \<lparr>tv_sec = 0, tv_nsec = 0\<rparr>)
          (state_at 5000000000) False) = 2000000100
   \<and> issued (state_at 5000000000)
        (host_sleepuntil (host_at \<lparr>tv_sec = 7, tv_nsec = 100\<rparr> \<lparr>tv_sec = 0, tv_nsec = 0\<rparr>)
           (state_at 5000000000) 8591934592100)
     = [Clock_gettime CLOCK_MONOTONIC, Usleep 0]"
  by (simp add: host_sleepuntil_unfold host_gettime_mono_fst timespec_ns_def host_at_def
      state_at_def issued_emit2)

text \<open>
  C9, amended: when \<open>now + 1000\<close> does not wrap, a sleep is issued only under the guard
  \<open>d > now + 1000\<close>; then \<open>d - now\<close> is the difference of the two as integers and the
  quotient \<open>(d - now) div 1000\<close> is at least 1; whenever that quotient is below \<open>2^32\<close>,
  it is the argument the host receives, which is then at least 1.
\<close>

theorem host_sleepuntil_no_wrap:
  assumes now: "now = fst (host_gettime h s False)"
      and nowrap: "unat now + 1000 < 2 ^ 64"
      and sleep: "Usleep u \<in> set (issued s (host_sleepuntil h s d))"
  shows "now + 1000 < d \<and> now < d \<and> uint (d - now) = uint d - uint now
         \<and> u = ucast ((d - now) div 1000)
         \<and> 1 \<le> unat ((d - now) div 1000)
         \<and> (unat ((d - now) div 1000) < 2 ^ 32 \<longrightarrow>
              unat u = (unat d - unat now) div 1000 \<and> 1 \<le> unat u)"
proof -
  have g: "(now + 1000 < d) = (unat now + 1000 < unat d)"
    using nowrap by (rule guard_nowrap)
  have guard: "now + 1000 < d"
  proof (rule ccontr)
    assume "\<not> now + 1000 < d"
    then have "issued s (host_sleepuntil h s d) = [Clock_gettime CLOCK_MONOTONIC]"
      unfolding host_sleepuntil_unfold now [symmetric] by (simp add: issued_emit1)
    with sleep show False by simp
  qed
  then have "issued s (host_sleepuntil h s d)
               = [Clock_gettime CLOCK_MONOTONIC, Usleep (ucast ((d - now) div 1000))]"
    unfolding host_sleepuntil_unfold now [symmetric] by (simp add: issued_emit2)
  with sleep have u: "u = ucast ((d - now) div 1000)" by simp
  from guard g have lt: "unat now + 1000 < unat d" by simp
  then have le: "now \<le> d" and less: "now < d"
    by (simp_all add: word_le_nat_alt word_less_nat_alt)
  from le have idiff: "uint (d - now) = uint d - uint now"
    by (simp add: uint_sub_if' word_le_def)
  have q: "unat ((d - now) div 1000) = (unat d - unat now) div 1000"
    using le by (rule unat_sub_div_1000)
  have "1000 \<le> unat d - unat now" using lt by simp
  then have "1 \<le> (unat d - unat now) div 1000"
    by (simp add: div_greater_zero_iff Suc_le_eq)
  then have pos: "1 \<le> unat ((d - now) div 1000)"
    by (simp only: q)
  have narrow: "unat u = (unat d - unat now) div 1000 \<and> 1 \<le> unat u"
    if "unat ((d - now) div 1000) < 2 ^ 32"
  proof -
    from that have "unat u = unat ((d - now) div 1000)"
      unfolding u by (rule unat_narrow)
    with pos q show ?thesis by simp
  qed
  from guard less idiff u pos narrow show ?thesis by blast
qed

theorem host_sleepuntil_no_wrap_witness:
  "unat (fst (host_gettime (host_at \<lparr>tv_sec = 7, tv_nsec = 100\<rparr> \<lparr>tv_sec = 0, tv_nsec = 0\<rparr>)
                 (state_at 5000000000) False)) + 1000 < 2 ^ 64
   \<and> Usleep 5 \<in> set (issued (state_at 5000000000)
        (host_sleepuntil (host_at \<lparr>tv_sec = 7, tv_nsec = 100\<rparr> \<lparr>tv_sec = 0, tv_nsec = 0\<rparr>)
           (state_at 5000000000) 2000005100))
   \<and> unat ((2000005100 - 2000000100 :: 64 word) div 1000) < 2 ^ 32
   \<and> (2000000100 :: 64 word) < 2000005100
   \<and> 1 \<le> unat (5 :: useconds_t)"
proof -
  let ?h = "host_at \<lparr>tv_sec = 7, tv_nsec = 100\<rparr> \<lparr>tv_sec = 0, tv_nsec = 0\<rparr>"
  let ?s = "state_at 5000000000"
  have now: "fst (host_gettime ?h ?s False) = 2000000100"
    by (simp add: host_gettime_mono_fst timespec_ns_def host_at_def state_at_def)
  have h: "unat (2000000100 :: 64 word) + 1000 < 2 ^ 64" by simp
  have sl: "Usleep 5 \<in> set (issued ?s (host_sleepuntil ?h ?s 2000005100))"
    by (simp add: host_sleepuntil_unfold now issued_emit2)
  show ?thesis
    using host_sleepuntil_no_wrap [OF now [symmetric] h sl] sl
    by (simp add: now)
qed

section \<open>C10: who writes the epoch and the timer handle\<close>

text \<open>
  C10: \<open>host_gettime\<close>, \<open>host_sleep\<close>, \<open>host_sleepuntil\<close>, \<open>host_settimer\<close> (both builds) and
  \<open>host_timerirq\<close> leave \<open>g_start\<close> and \<open>g_timer\<close> as they were; \<open>host_inittimer\<close> is the
  one operation that writes the epoch, setting it to the monotonic sample.
\<close>

theorem epoch_and_handle_frame:
  "g_start (snd (host_gettime h s rtc)) = g_start s
   \<and> g_timer (snd (host_gettime h s rtc)) = g_timer s
   \<and> g_start (host_sleep s n) = g_start s
   \<and> g_timer (host_sleep s n) = g_timer s
   \<and> g_start (host_sleepuntil h s n) = g_start s
   \<and> g_timer (host_sleepuntil h s n) = g_timer s
   \<and> g_start (snd (host_settimer p h s n)) = g_start s
   \<and> g_timer (snd (host_settimer p h s n)) = g_timer s
   \<and> g_start (snd (host_timerirq s)) = g_start s
   \<and> g_timer (snd (host_timerirq s)) = g_timer s
   \<and> g_start (snd (host_inittimer p h s)) = timespec_ns (clock h CLOCK_MONOTONIC)"
proof -
  have gt: "g_start (snd (host_gettime h s rtc)) = g_start s"
           "g_timer (snd (host_gettime h s rtc)) = g_timer s"
    by (simp_all add: host_gettime_snd emit_def)
  have sl: "g_start (host_sleep s n) = g_start s" "g_timer (host_sleep s n) = g_timer s"
    by (simp_all add: host_sleep_def emit_def)
  have su: "g_start (host_sleepuntil h s n) = g_start s"
           "g_timer (host_sleepuntil h s n) = g_timer s"
    by (simp_all add: host_sleepuntil_unfold emit_def)
  have st: "g_start (snd (host_settimer p h s n)) = g_start s"
           "g_timer (snd (host_settimer p h s n)) = g_timer s"
    by (cases p; simp add: host_settimer_def Let_def emit_def)+
  have irq: "g_start (snd (host_timerirq s)) = g_start s"
            "g_timer (snd (host_timerirq s)) = g_timer s"
    by (simp_all add: host_timerirq_def)
  have init: "g_start (snd (host_inittimer p h s)) = timespec_ns (clock h CLOCK_MONOTONIC)"
    by (cases p) (simp_all add: host_inittimer_def Let_def emit_def)
  from gt sl su st irq init show ?thesis by simp
qed

end
